theory Spec2Isabelle
  imports
    Main
    "HOL-Library.AList"
    "HOL-Library.Multiset"
    "HOL-Library.List_Lexorder"
    "HOL-Library.Char_ord"
begin

section \<open>The collector server: values, store and request handlers\<close>

text \<open>
  The source file \<^verbatim>\<open>src/server.js\<close> holds two versions of the server one after the
  other. The second (lines 176 to 328) is the complete one: it has the category filter,
  the metadata route and the merge function \<^verbatim>\<open>processItemData\<close> of lines 236 to 247.
  It is the one embedded here; the listing route of the first version (lines 99 to 112)
  is embedded beside it, as \<open>get_items_unfiltered\<close>. The rest of the first version
  (its merge function of lines 81 to 97 and its routes) is not embedded.

  What is left to the environment: the files that multer stores and the names it gives
  them are part of the request; the clock is an argument of the creation; the database
  is the table of rows, and its failures (an unreadable file, a full disk) are outside
  the model.
\<close>

subsection \<open>JSON values and JavaScript values\<close>

text \<open>
  A JSON value, as \<^verbatim>\<open>JSON.parse\<close> and \<^verbatim>\<open>express.json()\<close> deliver it. An object is
  its list of properties in insertion order. Numbers are the integers (those a double
  holds exactly and prints in full): a number with a fraction or an exponent is outside
  the model, and so is the difference between a string's characters and its UTF-16 code
  units.
\<close>

datatype json =
    JNull
  | JBool bool
  | JNum int
  | JStr string
  | JArr "json list"
  | JObj "(string \<times> json) list"

text \<open>
  A string that is handed to \<^verbatim>\<open>JSON.parse\<close> (the \<^verbatim>\<open>data\<close> field of a request, the
  \<^verbatim>\<open>data\<close> column of a row) is represented by what the program can observe of it:
  the value it encodes when it is JSON text, and otherwise whether it is empty.
\<close>

datatype jtext =
    JsonText json
  | EmptyText
  | OtherText

text \<open>The exceptions of the JavaScript engine that the program can meet.\<close>

datatype error =
    TypeError
  | SyntaxError

definition JSON_parse :: "jtext \<Rightarrow> error + json" where
  "JSON_parse t = (case t of JsonText v \<Rightarrow> Inr v | EmptyText \<Rightarrow> Inl SyntaxError | OtherText \<Rightarrow> Inl SyntaxError)"

text \<open>
  The value of the variable \<^verbatim>\<open>dataObj\<close>: \<^verbatim>\<open>undefined\<close>, a JSON value, or an array
  that has been given named properties besides its elements (an assignment
  \<^verbatim>\<open>a.imageUrls = ...\<close> to an array \<^verbatim>\<open>a\<close> succeeds).
\<close>

datatype jsval =
    Undefined
  | Val json
  | ArrProps "json list" "(string \<times> json) list"

text \<open>
  Reading a property \<^verbatim>\<open>v.k\<close>, for the names the program reads (\<^verbatim>\<open>imageUrls\<close>,
  \<^verbatim>\<open>brand\<close>, \<^verbatim>\<open>theme\<close>, \<^verbatim>\<open>developer\<close>, \<^verbatim>\<open>publisher\<close>: none is an index,
  \<^verbatim>\<open>length\<close> or a name of a prototype). It throws on \<^verbatim>\<open>undefined\<close> and \<^verbatim>\<open>null\<close>;
  a property that is not there reads as \<^verbatim>\<open>undefined\<close>, here \<open>None\<close>.
\<close>

fun get_prop :: "jsval \<Rightarrow> string \<Rightarrow> error + json option" where
  "get_prop Undefined k = Inl TypeError"
| "get_prop (Val JNull) k = Inl TypeError"
| "get_prop (Val (JObj ps)) k = Inr (map_of ps k)"
| "get_prop (Val (JArr xs)) k = Inr None"
| "get_prop (Val (JBool b)) k = Inr None"
| "get_prop (Val (JNum n)) k = Inr None"
| "get_prop (Val (JStr s)) k = Inr None"
| "get_prop (ArrProps xs ps) k = Inr (map_of ps k)"

text \<open>
  The assignment \<^verbatim>\<open>v.k = x\<close>. The file is a CommonJS module with no
  \<^verbatim>\<open>'use strict'\<close>, so an assignment to a property of a number, a boolean or a
  string is ignored. An existing property keeps its place; a new one goes last.
\<close>

fun set_prop :: "jsval \<Rightarrow> string \<Rightarrow> json \<Rightarrow> error + jsval" where
  "set_prop Undefined k x = Inl TypeError"
| "set_prop (Val JNull) k x = Inl TypeError"
| "set_prop (Val (JObj ps)) k x = Inr (Val (JObj (AList.update k x ps)))"
| "set_prop (Val (JArr xs)) k x = Inr (ArrProps xs [(k, x)])"
| "set_prop (Val (JBool b)) k x = Inr (Val (JBool b))"
| "set_prop (Val (JNum n)) k x = Inr (Val (JNum n))"
| "set_prop (Val (JStr s)) k x = Inr (Val (JStr s))"
| "set_prop (ArrProps xs ps) k x = Inr (ArrProps xs (AList.update k x ps))"

text \<open>
  \<^verbatim>\<open>JSON.stringify(v)\<close>: the text that encodes \<open>v\<close>. The named properties of an
  array are not part of its encoding; \<^verbatim>\<open>undefined\<close> has none (the result is
  \<^verbatim>\<open>undefined\<close>, which the store binds as NULL).
\<close>

fun JSON_stringify :: "jsval \<Rightarrow> jtext option" where
  "JSON_stringify Undefined = None"
| "JSON_stringify (Val v) = Some (JsonText v)"
| "JSON_stringify (ArrProps xs ps) = Some (JsonText (JArr xs))"

text \<open>JavaScript's truthiness of a value that may be \<^verbatim>\<open>undefined\<close>.\<close>

fun js_truthy :: "json option \<Rightarrow> bool" where
  "js_truthy None = False"
| "js_truthy (Some JNull) = False"
| "js_truthy (Some (JBool b)) = b"
| "js_truthy (Some (JNum n)) = (n \<noteq> 0)"
| "js_truthy (Some (JStr s)) = (s \<noteq> [])"
| "js_truthy (Some (JArr xs)) = True"
| "js_truthy (Some (JObj ps)) = True"

text \<open>Decimal numerals, for \<^verbatim>\<open>String(n)\<close> and for the index names of an array.\<close>

definition digit :: "nat \<Rightarrow> char" where
  "digit d = ''0123456789'' ! d"

fun string_of_nat :: "nat \<Rightarrow> string" where
  "string_of_nat n =
     (if n < 10 then [digit n] else string_of_nat (n div 10) @ [digit (n mod 10)])"

declare string_of_nat.simps [simp del]

fun join :: "string \<Rightarrow> string list \<Rightarrow> string" where
  "join sep [] = []"
| "join sep [s] = s"
| "join sep (s # t # ss) = s @ sep @ join sep (t # ss)"

text \<open>
  \<^verbatim>\<open>String(v)\<close>, which \<^verbatim>\<open>Array.prototype.sort\<close> compares by when it is given no
  comparator. An array is its elements joined by commas, \<^verbatim>\<open>null\<close> elements empty.
\<close>

fun js_toString :: "json \<Rightarrow> string" where
  "js_toString JNull = ''null''"
| "js_toString (JBool b) = (if b then ''true'' else ''false'')"
| "js_toString (JNum n) =
     (if n < 0 then ''-'' @ string_of_nat (nat (- n)) else string_of_nat (nat n))"
| "js_toString (JStr s) = s"
| "js_toString (JArr xs) = join '','' (map (\<lambda>x. if x = JNull then [] else js_toString x) xs)"
| "js_toString (JObj ps) = ''[object Object]''"

text \<open>
  \<^verbatim>\<open>xs.sort()\<close>: a stable sort by the string of each element, strings compared
  character by character.
\<close>

definition js_sort :: "json list \<Rightarrow> json list" where
  "js_sort xs = sort_key js_toString xs"

text \<open>
  A \<^verbatim>\<open>Set\<close>, as the list of its elements in insertion order. \<^verbatim>\<open>add\<close> leaves the
  set alone when it holds the value already. Every array and object the program adds
  comes out of a \<^verbatim>\<open>JSON.parse\<close> of its own, so it is a new object and equal to none
  in the set.
\<close>

fun is_primitive :: "json \<Rightarrow> bool" where
  "is_primitive (JArr xs) = False"
| "is_primitive (JObj ps) = False"
| "is_primitive v = True"

definition set_add :: "json \<Rightarrow> json list \<Rightarrow> json list" where
  "set_add v s = (if is_primitive v \<and> v \<in> set s then s else s @ [v])"

subsection \<open>Requests\<close>

text \<open>
  The \<^verbatim>\<open>data\<close> field of a request body: absent, a string (every field of a
  multipart form is one, and so is a string in a JSON body), or a JSON value of a JSON
  body that is not a string (the argument of \<open>Structured\<close> is never a \<open>JStr\<close>).
\<close>

datatype payload =
    Absent
  | Raw jtext
  | Structured json

text \<open>
  The scalar fields of \<^verbatim>\<open>req.body\<close>. The text fields are modelled as a form delivers
  them: a string, or absent. The name is always there: the table declares
  \<^verbatim>\<open>name TEXT NOT NULL\<close>, and a request without one is outside the model.
  \<^verbatim>\<open>owned\<close> is any JSON value, or absent.
\<close>

record fields =
  name :: string
  category :: "string option"
  collection :: "string option"
  barcode :: "string option"
  owned :: "json option"

record body = fields +
  data :: payload

text \<open>What \<^verbatim>\<open>processItemData\<close> returns: the same fields, and \<^verbatim>\<open>dataObj\<close>.\<close>

record processed = fields +
  dataObj :: jsval

text \<open>A file as multer stored it; \<^verbatim>\<open>filename\<close> is the unique name it was given.\<close>

record uploaded_file =
  originalname :: string
  filename :: string

text \<open>
  \<^verbatim>\<open>req.files\<close> is the list of stored files of a multipart request, and is not set
  (\<open>None\<close>) when the request is not multipart.
\<close>

record request =
  body :: body
  files :: "uploaded_file list option"

subsection \<open>The merge: \<^verbatim>\<open>processItemData\<close> (lines 236 to 247)\<close>

text \<open>
  Line 238 and 239:
  \<^verbatim>\<open>let dataObj = {}; try { dataObj = typeof data === 'string' ? JSON.parse(data) : data; } catch (e) {}\<close>
\<close>

definition decode_payload :: "payload \<Rightarrow> jsval" where
  "decode_payload d =
     (case d of
        Absent \<Rightarrow> Undefined
      | Raw t \<Rightarrow> (case JSON_parse t of Inr v \<Rightarrow> Val v | Inl e \<Rightarrow> Val (JObj []))
      | Structured v \<Rightarrow> Val v)"

definition upload_path :: "uploaded_file \<Rightarrow> json" where
  "upload_path f = JStr (''/uploads/'' @ filename f)"

text \<open>Running on unless an exception was thrown.\<close>

definition and_then :: "error + 'a \<Rightarrow> ('a \<Rightarrow> error + 'b) \<Rightarrow> error + 'b" where
  "and_then r f = (case r of Inl e \<Rightarrow> Inl e | Inr x \<Rightarrow> f x)"

text \<open>
  Line 241: \<^verbatim>\<open>Array.isArray(dataObj.imageUrls) ? dataObj.imageUrls : []\<close>, applied to
  the property as read.
\<close>

fun existing_images :: "json option \<Rightarrow> json list" where
  "existing_images (Some (JArr xs)) = xs"
| "existing_images v = []"

text \<open>
  Line 244: \<^verbatim>\<open>dataObj.imageUrls.length > 0 ? dataObj.imageUrls[0] : null\<close>, applied to
  what \<^verbatim>\<open>dataObj.imageUrls\<close> reads back. That is the array line 243 assigned, or
  \<^verbatim>\<open>undefined\<close> when \<^verbatim>\<open>dataObj\<close> is a number, a boolean or a string (the
  assignment was ignored), and then \<^verbatim>\<open>.length\<close> throws. Nothing else is read back
  (lemma \<open>read_back\<close>).
\<close>

fun first_or_null :: "json option \<Rightarrow> error + json" where
  "first_or_null (Some (JArr [])) = Inr JNull"
| "first_or_null (Some (JArr (y # ys))) = Inr y"
| "first_or_null v = Inl TypeError"

text \<open>Line 242: \<^verbatim>\<open>req.files ? req.files.map(f => `/uploads/${f.filename}`) : []\<close>\<close>

definition new_images :: "request \<Rightarrow> json list" where
  "new_images req = (case files req of Some fs \<Rightarrow> map upload_path fs | None \<Rightarrow> [])"

text \<open>Lines 237 to 246.\<close>

definition processItemData :: "request \<Rightarrow> error + processed" where
  "processItemData req =
     (let b = body req;
          dataObj0 = decode_payload (data b)
      in and_then (get_prop dataObj0 ''imageUrls'') (\<lambda>echoed.
           let existingImages = existing_images echoed;
               newImages = new_images req
           in and_then (set_prop dataObj0 ''imageUrls'' (JArr (existingImages @ newImages))) (\<lambda>dataObj1.
              and_then (get_prop dataObj1 ''imageUrls'') (\<lambda>assigned.
              and_then (first_or_null assigned) (\<lambda>cover.
              and_then (set_prop dataObj1 ''imageUrl'' cover) (\<lambda>dataObj2.
                Inr \<lparr> name = name b, category = category b, collection = collection b,
                      barcode = barcode b, owned = owned b, dataObj = dataObj2 \<rparr>))))))"

subsection \<open>The store: the table \<^verbatim>\<open>items\<close> (lines 205 to 218)\<close>

text \<open>
  A row of the table. A column the schema lets be NULL is an option; \<^verbatim>\<open>created_at\<close>
  is the time of the insertion, which the column's default sets and no statement of the
  program writes. \<^verbatim>\<open>seq\<close> is the largest id the table has given out
  (\<^verbatim>\<open>AUTOINCREMENT\<close>).
\<close>

record row =
  r_id :: nat
  r_name :: string
  r_category :: "string option"
  r_collection :: string
  r_barcode :: "string option"
  r_owned :: "int option"
  r_data :: "jtext option"
  r_created_at :: nat

record store =
  rows :: "row list"
  seq :: nat

definition next_id :: "store \<Rightarrow> nat" where
  "next_id st = Suc (foldr max (map r_id (rows st)) (seq st))"

text \<open>
  \<^verbatim>\<open>INSERT INTO items (name, category, collection, barcode, owned, data) VALUES (?, ?, ?, ?, ?, ?)\<close>
  at the time \<open>now\<close>; the result is the new store and \<^verbatim>\<open>lastInsertRowid\<close>.
\<close>

definition sql_insert ::
  "nat \<Rightarrow> store \<Rightarrow> string \<Rightarrow> string \<Rightarrow> string \<Rightarrow> string option \<Rightarrow> int \<Rightarrow> jtext option \<Rightarrow> store \<times> nat" where
  "sql_insert now st n cat col bar own dat =
     (let i = next_id st
      in (\<lparr> rows = rows st @
                [\<lparr> r_id = i, r_name = n, r_category = Some cat, r_collection = col,
                    r_barcode = bar, r_owned = Some own, r_data = dat, r_created_at = now \<rparr>],
             seq = i \<rparr>, i))"

text \<open>
  \<^verbatim>\<open>UPDATE items SET name = ?, category = ?, collection = ?, barcode = ?, owned = ?, data = ? WHERE id = ?\<close>
\<close>

definition sql_update ::
  "store \<Rightarrow> string \<Rightarrow> string \<Rightarrow> string \<Rightarrow> string option \<Rightarrow> int \<Rightarrow> jtext option \<Rightarrow> nat \<Rightarrow> store" where
  "sql_update st n cat col bar own dat i =
     st \<lparr> rows :=
           map (\<lambda>r. if r_id r = i
                    then r \<lparr> r_name := n, r_category := Some cat, r_collection := col,
                             r_barcode := bar, r_owned := Some own, r_data := dat \<rparr>
                    else r)
               (rows st) \<rparr>"

text \<open>\<^verbatim>\<open>UPDATE items SET owned = ? WHERE id = ?\<close>\<close>

definition sql_set_owned :: "store \<Rightarrow> int \<Rightarrow> nat \<Rightarrow> store" where
  "sql_set_owned st own i =
     st \<lparr> rows := map (\<lambda>r. if r_id r = i then r \<lparr> r_owned := Some own \<rparr> else r) (rows st) \<rparr>"

text \<open>\<^verbatim>\<open>DELETE FROM items WHERE id = ?\<close>\<close>

definition sql_delete :: "store \<Rightarrow> nat \<Rightarrow> store" where
  "sql_delete st i = st \<lparr> rows := filter (\<lambda>r. r_id r \<noteq> i) (rows st) \<rparr>"

text \<open>
  \<^verbatim>\<open>SELECT * FROM items [WHERE category = ?] ORDER BY created_at DESC\<close>. SQL leaves
  the order of rows of one \<^verbatim>\<open>created_at\<close> open; the model sorts stably and reverses,
  and no theorem below depends on that choice.
\<close>

definition sql_select :: "store \<Rightarrow> string option \<Rightarrow> row list" where
  "sql_select st wh =
     rev (sort_key r_created_at
            (case wh of None \<Rightarrow> rows st
                      | Some c \<Rightarrow> filter (\<lambda>r. r_category r = Some c) (rows st)))"

subsection \<open>The routes (lines 250 to 325)\<close>

text \<open>
  How a request ends when it does not end well: the handler let an exception escape
  (Express answers it with status 500), or the handler's own \<^verbatim>\<open>catch\<close> answered
  \<^verbatim>\<open>res.status(500).json({ error: ... })\<close>.
\<close>

datatype failure =
    Thrown error
  | Status500 string

text \<open>\<^verbatim>\<open>x || d\<close> for a text field \<open>x\<close>: the empty string and an absent field are falsy.\<close>

fun or_default :: "string option \<Rightarrow> string \<Rightarrow> string" where
  "or_default None d = d"
| "or_default (Some s) d = (if s = [] then d else s)"

fun or_null :: "string option \<Rightarrow> string option" where
  "or_null None = None"
| "or_null (Some s) = (if s = [] then None else Some s)"

text \<open>\<^verbatim>\<open>(owned === 'true' || owned === true) ? 1 : 0\<close> (lines 307 and 313)\<close>

definition owned_flag :: "json option \<Rightarrow> int" where
  "owned_flag w = (if w = Some (JStr ''true'') \<or> w = Some (JBool True) then 1 else 0)"

text \<open>\<^verbatim>\<open>req.body.owned ? 1 : 0\<close> (line 318)\<close>

definition owned_truthy_flag :: "json option \<Rightarrow> int" where
  "owned_truthy_flag w = (if js_truthy w then 1 else 0)"

text \<open>
  The own properties that \<^verbatim>\<open>{ id: ..., ...v }\<close> copies from \<open>v\<close>: an array gives its
  elements under their indices, then its named properties. (JavaScript lists the index
  names of the new object first; the model keeps the order of writing.)
\<close>

definition index_props :: "json list \<Rightarrow> (string \<times> json) list" where
  "index_props xs = zip (map string_of_nat [0 ..< length xs]) xs"

fun own_props :: "jsval \<Rightarrow> (string \<times> json) list" where
  "own_props Undefined = []"
| "own_props (Val (JObj ps)) = ps"
| "own_props (Val (JArr xs)) = index_props xs"
| "own_props (Val (JStr s)) = index_props (map (\<lambda>c. JStr [c]) s)"
| "own_props (Val v) = []"
| "own_props (ArrProps xs ps) = index_props xs @ ps"

definition spread :: "(string \<times> json) list \<Rightarrow> jsval \<Rightarrow> json" where
  "spread base v = JObj (foldl (\<lambda>acc p. AList.update (fst p) (snd p) acc) base (own_props v))"

definition success :: json where
  "success = JObj [(''success'', JBool True)]"

text \<open>
  \<^verbatim>\<open>POST /api/items\<close> (lines 305 to 309), at the time \<open>now\<close>. The result is the store
  after the request and the answer.
\<close>

definition post_item :: "nat \<Rightarrow> store \<Rightarrow> request \<Rightarrow> store \<times> (failure + json)" where
  "post_item now st req =
     (case processItemData req of
        Inl e \<Rightarrow> (st, Inl (Thrown e))
      | Inr p \<Rightarrow>
          (let ins = sql_insert now st (name p) (or_default (category p) ''Toy'')
                       (or_default (collection p) ''General'') (or_null (barcode p))
                       (owned_flag (owned p)) (JSON_stringify (dataObj p))
           in (fst ins, Inr (spread [(''id'', JNum (int (snd ins)))] (dataObj p)))))"

text \<open>
  \<^verbatim>\<open>PUT /api/items/:id\<close> (lines 311 to 315). \<open>i\<close> is the id that the path names; the
  answer gives it back as the string of the path.
\<close>

definition put_item :: "store \<Rightarrow> nat \<Rightarrow> request \<Rightarrow> store \<times> (failure + json)" where
  "put_item st i req =
     (case processItemData req of
        Inl e \<Rightarrow> (st, Inl (Thrown e))
      | Inr p \<Rightarrow>
          (sql_update st (name p) (or_default (category p) ''Toy'')
             (or_default (collection p) ''General'') (or_null (barcode p))
             (owned_flag (owned p)) (JSON_stringify (dataObj p)) i,
           Inr (spread [(''id'', JStr (string_of_nat i))] (dataObj p))))"

text \<open>
  \<^verbatim>\<open>POST /api/items/:id/toggle\<close> (lines 317 to 320); \<open>w\<close> is \<^verbatim>\<open>req.body.owned\<close>.
\<close>

definition toggle_item :: "store \<Rightarrow> nat \<Rightarrow> json option \<Rightarrow> store \<times> (failure + json)" where
  "toggle_item st i w = (sql_set_owned st (owned_truthy_flag w) i, Inr success)"

text \<open>\<^verbatim>\<open>DELETE /api/items/:id\<close> (lines 322 to 325)\<close>

definition delete_item :: "store \<Rightarrow> nat \<Rightarrow> store \<times> (failure + json)" where
  "delete_item st i = (sql_delete st i, Inr success)"

subsection \<open>Listing (lines 250 to 270)\<close>

text \<open>
  An element of the answer of \<^verbatim>\<open>GET /api/items\<close>:
  \<^verbatim>\<open>{ ...item, owned: Boolean(item.owned), data: JSON.parse(item.data) }\<close>.
\<close>

record item =
  i_id :: nat
  i_name :: string
  i_category :: "string option"
  i_collection :: string
  i_barcode :: "string option"
  i_owned :: bool
  i_data :: json
  i_created_at :: nat

text \<open>\<^verbatim>\<open>Boolean(item.owned)\<close>: NULL and 0 are false.\<close>

fun js_Boolean :: "int option \<Rightarrow> bool" where
  "js_Boolean None = False"
| "js_Boolean (Some n) = (n \<noteq> 0)"

text \<open>\<^verbatim>\<open>JSON.parse(item.data)\<close>: a NULL column is read as \<^verbatim>\<open>null\<close>, whose string is JSON text.\<close>

fun parse_column :: "jtext option \<Rightarrow> error + json" where
  "parse_column None = Inr JNull"
| "parse_column (Some t) = JSON_parse t"

definition item_of_row :: "row \<Rightarrow> error + item" where
  "item_of_row r =
     and_then (parse_column (r_data r)) (\<lambda>d.
       Inr \<lparr> i_id = r_id r, i_name = r_name r, i_category = r_category r,
             i_collection = r_collection r, i_barcode = r_barcode r,
             i_owned = js_Boolean (r_owned r), i_data = d,
             i_created_at = r_created_at r \<rparr>)"

text \<open>\<^verbatim>\<open>stmt.all(...).map(item => ...)\<close>: the first exception ends the mapping.\<close>

fun map_items :: "row list \<Rightarrow> error + item list" where
  "map_items [] = Inr []"
| "map_items (r # rs) =
     and_then (item_of_row r) (\<lambda>i. and_then (map_items rs) (\<lambda>is. Inr (i # is)))"

text \<open>
  \<^verbatim>\<open>GET /api/items\<close>; \<open>q\<close> is \<^verbatim>\<open>req.query.category\<close>, a string when the query
  gives the parameter (once), and \<open>None\<close> when it does not. The \<^verbatim>\<open>WHERE\<close> clause is
  added under \<^verbatim>\<open>if (category)\<close>, which an empty string does not pass. An exception
  of the mapping is caught and answered with status 500.
\<close>

definition get_items :: "store \<Rightarrow> string option \<Rightarrow> failure + item list" where
  "get_items st q =
     (case map_items (sql_select st (or_null q)) of
        Inl e \<Rightarrow> Inl (Status500 ''Database error'')
      | Inr is \<Rightarrow> Inr is)"

text \<open>The listing of the first version of the file (lines 99 to 112): no filter.\<close>

definition get_items_unfiltered :: "store \<Rightarrow> failure + item list" where
  "get_items_unfiltered st =
     (case map_items (sql_select st None) of
        Inl e \<Rightarrow> Inl (Status500 ''Database error'')
      | Inr is \<Rightarrow> Inr is)"

subsection \<open>Metadata (lines 273 to 303)\<close>

text \<open>The five sets of line 276 to 282.\<close>

record sets =
  collections :: "json list"
  brands :: "json list"
  themes :: "json list"
  developers :: "json list"
  publishers :: "json list"

text \<open>\<^verbatim>\<open>if (d.k) s.add(d.k)\<close>\<close>

definition observe :: "json \<Rightarrow> string \<Rightarrow> json list \<Rightarrow> error + json list" where
  "observe d k s =
     and_then (get_prop (Val d) k) (\<lambda>v.
       Inr (case v of None \<Rightarrow> s | Some x \<Rightarrow> if js_truthy (Some x) then set_add x s else s))"

text \<open>\<^verbatim>\<open>i.data || '{}'\<close>: NULL and the empty string are falsy.\<close>

fun data_or_empty_object :: "jtext option \<Rightarrow> jtext" where
  "data_or_empty_object None = JsonText (JObj [])"
| "data_or_empty_object (Some EmptyText) = JsonText (JObj [])"
| "data_or_empty_object (Some t) = t"

text \<open>
  The body of the \<^verbatim>\<open>forEach\<close>, lines 285 to 290, for one row. The rows come from
  \<^verbatim>\<open>SELECT collection, data FROM items\<close>, in the order of the table.
\<close>

definition scan_row :: "row \<Rightarrow> sets \<Rightarrow> error + sets" where
  "scan_row i m =
     (let m1 = (if r_collection i \<noteq> []
                then m \<lparr> collections := set_add (JStr (r_collection i)) (collections m) \<rparr>
                else m)
      in and_then (JSON_parse (data_or_empty_object (r_data i))) (\<lambda>d.
         and_then (observe d ''brand'' (brands m1)) (\<lambda>b.
         and_then (observe d ''theme'' (themes m1)) (\<lambda>t.
         and_then (observe d ''developer'' (developers m1)) (\<lambda>dv.
         and_then (observe d ''publisher'' (publishers m1)) (\<lambda>pb.
           Inr (m1 \<lparr> brands := b, themes := t, developers := dv, publishers := pb \<rparr>)))))))"

fun scan_rows :: "row list \<Rightarrow> sets \<Rightarrow> error + sets" where
  "scan_rows [] m = Inr m"
| "scan_rows (i # is) m = and_then (scan_row i m) (scan_rows is)"

text \<open>The answer of \<^verbatim>\<open>GET /api/metadata\<close>, lines 293 to 299.\<close>

record metadata =
  m_collection :: "json list"
  m_brand :: "json list"
  m_theme :: "json list"
  m_developer :: "json list"
  m_publisher :: "json list"

definition get_metadata :: "store \<Rightarrow> failure + metadata" where
  "get_metadata st =
     (case scan_rows (rows st)
             \<lparr> collections = [], brands = [], themes = [], developers = [], publishers = [] \<rparr> of
        Inl e \<Rightarrow> Inl (Status500 ''DB Error'')
      | Inr m \<Rightarrow>
          Inr \<lparr> m_collection = js_sort (collections m), m_brand = js_sort (brands m),
                m_theme = js_sort (themes m), m_developer = js_sort (developers m),
                m_publisher = js_sort (publishers m) \<rparr>)"

subsection \<open>The states the program reaches\<close>

text \<open>
  The table starts empty (\<^verbatim>\<open>CREATE TABLE IF NOT EXISTS\<close> on a new data directory), and
  only the four writing routes change it, with any arguments and at any time.
\<close>

inductive reachable :: "store \<Rightarrow> bool" where
  reach_empty: "reachable \<lparr> rows = [], seq = 0 \<rparr>"
| reach_post: "reachable st \<Longrightarrow> reachable (fst (post_item now st req))"
| reach_put: "reachable st \<Longrightarrow> reachable (fst (put_item st i req))"
| reach_toggle: "reachable st \<Longrightarrow> reachable (fst (toggle_item st i w))"
| reach_delete: "reachable st \<Longrightarrow> reachable (fst (delete_item st i))"

subsection \<open>Reading the table, for the statements below\<close>

text \<open>The row of an id, the attribute blob it stores, and a field of a blob.\<close>

definition find_row :: "store \<Rightarrow> nat \<Rightarrow> row option" where
  "find_row st i = find (\<lambda>r. r_id r = i) (rows st)"

fun blob_of :: "row option \<Rightarrow> json option" where
  "blob_of (Some r) = (case r_data r of Some (JsonText v) \<Rightarrow> Some v | _ \<Rightarrow> None)"
| "blob_of None = None"

definition stored_blob :: "store \<Rightarrow> nat \<Rightarrow> json option" where
  "stored_blob st i = blob_of (find_row st i)"

fun blob_field :: "json option \<Rightarrow> string \<Rightarrow> json option" where
  "blob_field (Some (JObj ps)) k = map_of ps k"
| "blob_field b k = None"

text \<open>
  The specification's words for the merge (section 4.3, steps 2 to 6): the payload's
  \<^verbatim>\<open>imageUrls\<close> field if it is present and already a sequence, otherwise the empty
  sequence; the paths of this request's files in the order they were received; the
  first element of a sequence, or null.
\<close>

definition spec_existing_images :: "jsval \<Rightarrow> json list" where
  "spec_existing_images d =
     (case d of
        Val (JObj ps) \<Rightarrow> (case map_of ps ''imageUrls'' of Some (JArr xs) \<Rightarrow> xs | _ \<Rightarrow> [])
      | _ \<Rightarrow> [])"

definition spec_new_images :: "request \<Rightarrow> json list" where
  "spec_new_images req =
     map (\<lambda>f. JStr (''/uploads/'' @ filename f)) (case files req of None \<Rightarrow> [] | Some fs \<Rightarrow> fs)"

definition spec_cover :: "json list \<Rightarrow> json" where
  "spec_cover ys = (case ys of [] \<Rightarrow> JNull | y # zs \<Rightarrow> y)"

text \<open>
  The invariant of section 3 on a stored blob: \<^verbatim>\<open>imageUrls\<close> is an array and
  \<^verbatim>\<open>imageUrl\<close> is its first element, or null.
\<close>

definition blob_consistent :: "json option \<Rightarrow> bool" where
  "blob_consistent b =
     (case blob_field b ''imageUrls'' of
        Some (JArr ys) \<Rightarrow> blob_field b ''imageUrl'' = Some (spec_cover ys)
      | _ \<Rightarrow> False)"

text \<open>
  What the writing routes leave in the \<^verbatim>\<open>data\<close> column: an object that keeps the
  invariant, or an array.
\<close>

definition stored_ok :: "row \<Rightarrow> bool" where
  "stored_ok r =
     (case r_data r of
        Some (JsonText (JObj ps)) \<Rightarrow> blob_consistent (Some (JObj ps))
      | Some (JsonText (JArr xs)) \<Rightarrow> True
      | _ \<Rightarrow> False)"

text \<open>
  The item object that the listing shows for a row whose \<^verbatim>\<open>data\<close> column decodes.
\<close>

definition item_view :: "row \<Rightarrow> item" where
  "item_view r =
     \<lparr> i_id = r_id r, i_name = r_name r, i_category = r_category r,
       i_collection = r_collection r, i_barcode = r_barcode r,
       i_owned = js_Boolean (r_owned r),
       i_data = (case parse_column (r_data r) of Inr v \<Rightarrow> v | Inl e \<Rightarrow> JNull),
       i_created_at = r_created_at r \<rparr>"

fun decodable :: "jtext option \<Rightarrow> bool" where
  "decodable (Some EmptyText) = False"
| "decodable (Some OtherText) = False"
| "decodable d = True"

definition decodable_rows :: "store \<Rightarrow> bool" where
  "decodable_rows st = list_all (\<lambda>r. decodable (r_data r)) (rows st)"

text \<open>
  The specification's words for the metadata (section 4.1): for each field the sorted
  set of the non-empty string values observed, \<^verbatim>\<open>collection\<close> from the column and the
  other four from the attribute blob. The order is that of the strings, character by
  character.
\<close>

definition row_blob :: "row \<Rightarrow> json" where
  "row_blob r = (case JSON_parse (data_or_empty_object (r_data r)) of Inr v \<Rightarrow> v | Inl e \<Rightarrow> JNull)"

fun string_field :: "json \<Rightarrow> string \<Rightarrow> string list" where
  "string_field (JObj ps) k =
     (case map_of ps k of Some (JStr s) \<Rightarrow> if s = [] then [] else [s] | _ \<Rightarrow> [])"
| "string_field d k = []"

definition observed_collections :: "store \<Rightarrow> string list" where
  "observed_collections st = filter (\<lambda>s. s \<noteq> []) (map r_collection (rows st))"

definition observed_strings :: "store \<Rightarrow> string \<Rightarrow> string list" where
  "observed_strings st k = concat (map (\<lambda>r. string_field (row_blob r) k) (rows st))"

definition spec_sorted_set :: "string list \<Rightarrow> json list" where
  "spec_sorted_set ss = map JStr (sort (remdups ss))"

definition spec_metadata :: "store \<Rightarrow> metadata" where
  "spec_metadata st =
     \<lparr> m_collection = spec_sorted_set (observed_collections st),
       m_brand = spec_sorted_set (observed_strings st ''brand''),
       m_theme = spec_sorted_set (observed_strings st ''theme''),
       m_developer = spec_sorted_set (observed_strings st ''developer''),
       m_publisher = spec_sorted_set (observed_strings st ''publisher'') \<rparr>"

text \<open>
  A row whose blob decodes to a value other than \<^verbatim>\<open>null\<close> and whose four fields, where
  they are truthy, are strings.
\<close>

fun is_string :: "json \<Rightarrow> bool" where
  "is_string (JStr s) = True"
| "is_string v = False"

definition string_or_falsy :: "json \<Rightarrow> string \<Rightarrow> bool" where
  "string_or_falsy d k =
     (case get_prop (Val d) k of
        Inr (Some x) \<Rightarrow> is_string x \<or> \<not> js_truthy (Some x)
      | _ \<Rightarrow> True)"

definition plain_row :: "row \<Rightarrow> bool" where
  "plain_row r =
     (case JSON_parse (data_or_empty_object (r_data r)) of
        Inl e \<Rightarrow> False
      | Inr d \<Rightarrow> d \<noteq> JNull \<and> string_or_falsy d ''brand'' \<and> string_or_falsy d ''theme'' \<and>
                 string_or_falsy d ''developer'' \<and> string_or_falsy d ''publisher'')"

definition plain_rows :: "store \<Rightarrow> bool" where
  "plain_rows st = list_all plain_row (rows st)"

text \<open>Adding strings to a set one after the other.\<close>

definition adds :: "string list \<Rightarrow> json list \<Rightarrow> json list" where
  "adds ss s = foldl (\<lambda>acc x. set_add (JStr x) acc) s ss"

subsection \<open>Concrete stores and requests\<close>

definition empty_store :: store where
  "empty_store = \<lparr> rows = [], seq = 0 \<rparr>"

definition form_body :: body where
  "form_body =
     \<lparr> name = ''Robot'', category = Some ''Game'', collection = Some ''Shelf A'',
       barcode = None, owned = Some (JStr ''true''), data = Absent \<rparr>"

definition file_a :: uploaded_file where
  "file_a = \<lparr> originalname = ''a.png'', filename = ''1700000000000-1.png'' \<rparr>"

definition file_b :: uploaded_file where
  "file_b = \<lparr> originalname = ''b.png'', filename = ''1700000000000-2.png'' \<rparr>"

text \<open>A row with one image, as a creation with the file \<^verbatim>\<open>a.png\<close> leaves it.\<close>

definition robot_row :: row where
  "robot_row =
     \<lparr> r_id = 1, r_name = ''Robot'', r_category = Some ''Game'', r_collection = ''Shelf A'',
       r_barcode = None, r_owned = Some 0,
       r_data = Some (JsonText (JObj
                  [(''brand'', JStr ''Acme''),
                   (''imageUrls'', JArr [JStr ''/uploads/1700000000000-1.png'']),
                   (''imageUrl'', JStr ''/uploads/1700000000000-1.png'')])),
       r_created_at = 100 \<rparr>"

definition robot_store :: store where
  "robot_store = \<lparr> rows = [robot_row], seq = 1 \<rparr>"

text \<open>
  A creation with two files, an echoed image and an \<^verbatim>\<open>imageUrl\<close> of the client's own
  choosing, and what the merge makes of it.
\<close>

definition two_files_request :: request where
  "two_files_request =
     \<lparr> body = form_body \<lparr> data := Raw (JsonText (JObj
                 [(''imageUrl'', JStr ''/uploads/chosen-by-client.png''),
                  (''imageUrls'', JArr [JStr ''/uploads/old.png''])])) \<rparr>,
       files = Some [file_a, file_b] \<rparr>"

definition two_files_processed :: processed where
  "two_files_processed =
     \<lparr> name = ''Robot'', category = Some ''Game'', collection = Some ''Shelf A'',
       barcode = None, owned = Some (JStr ''true''),
       dataObj = Val (JObj
         [(''imageUrl'', JStr ''/uploads/old.png''),
          (''imageUrls'', JArr [JStr ''/uploads/old.png'',
                                JStr ''/uploads/1700000000000-1.png'',
                                JStr ''/uploads/1700000000000-2.png''])]) \<rparr>"

text \<open>
  Requests on the form of \<open>form_body\<close>: with no \<^verbatim>\<open>data\<close> field; with a payload that has
  a brand and no \<^verbatim>\<open>imageUrls\<close>; with a payload that is not JSON text, such as
  \<^verbatim>\<open>{oops\<close>; with the payload \<^verbatim>\<open>[]\<close>; and with a payload that echoes the image of
  \<open>robot_row\<close>.
\<close>

definition no_payload_request :: request where
  "no_payload_request = \<lparr> body = form_body, files = None \<rparr>"

definition name_only_request :: request where
  "name_only_request =
     \<lparr> body = form_body \<lparr> data := Raw (JsonText (JObj [(''brand'', JStr ''Acme'')])) \<rparr>,
       files = Some [] \<rparr>"

definition garbled_request :: request where
  "garbled_request = \<lparr> body = form_body \<lparr> data := Raw OtherText \<rparr>, files = Some [file_a] \<rparr>"

definition array_request :: request where
  "array_request =
     \<lparr> body = form_body \<lparr> data := Raw (JsonText (JArr [])) \<rparr>, files = Some [file_a] \<rparr>"

definition echo_request :: request where
  "echo_request =
     \<lparr> body = form_body \<lparr> data := Raw (JsonText (JObj
                 [(''imageUrls'', JArr [JStr ''/uploads/1700000000000-1.png''])])) \<rparr>,
       files = Some [] \<rparr>"

text \<open>
  A creation that attaches two files and has no \<^verbatim>\<open>data\<close> field, and an update whose
  payload is \<^verbatim>\<open>[]\<close> and which attaches no file.
\<close>

definition files_only_request :: request where
  "files_only_request = \<lparr> body = form_body, files = Some [file_a, file_b] \<rparr>"

definition bare_array_request :: request where
  "bare_array_request =
     \<lparr> body = form_body \<lparr> data := Raw (JsonText (JArr [])) \<rparr>, files = Some [] \<rparr>"

text \<open>The creation that makes \<open>robot_store\<close> of the empty table.\<close>

definition robot_request :: request where
  "robot_request =
     \<lparr> body = form_body \<lparr> owned := None,
                           data := Structured (JObj [(''brand'', JStr ''Acme'')]) \<rparr>,
       files = Some [file_a] \<rparr>"

text \<open>
  More rows: a car whose brand is the number 5, a chess set and a doll; and two tables
  of them.
\<close>

definition car_row :: row where
  "car_row =
     \<lparr> r_id = 2, r_name = ''Car'', r_category = Some ''Toy'', r_collection = ''Shelf A'',
       r_barcode = Some ''4006381333931'', r_owned = Some 1,
       r_data = Some (JsonText (JObj
                  [(''brand'', JNum 5), (''imageUrls'', JArr []), (''imageUrl'', JNull)])),
       r_created_at = 300 \<rparr>"

definition chess_row :: row where
  "chess_row =
     \<lparr> r_id = 3, r_name = ''Chess'', r_category = Some ''Game'', r_collection = ''Shelf B'',
       r_barcode = None, r_owned = Some 0,
       r_data = Some (JsonText (JObj
                  [(''brand'', JStr ''acme''), (''theme'', JStr ''Classic''),
                   (''imageUrls'', JArr []), (''imageUrl'', JNull)])),
       r_created_at = 200 \<rparr>"

definition doll_row :: row where
  "doll_row =
     \<lparr> r_id = 4, r_name = ''Doll'', r_category = Some ''Toy'', r_collection = ''Shelf A'',
       r_barcode = None, r_owned = Some 1,
       r_data = Some (JsonText (JObj
                  [(''brand'', JStr ''Zed''), (''theme'', JStr ''''), (''publisher'', JNum 0),
                   (''imageUrls'', JArr []), (''imageUrl'', JNull)])),
       r_created_at = 400 \<rparr>"

definition shelf_store :: store where
  "shelf_store = \<lparr> rows = [robot_row, car_row, chess_row], seq = 3 \<rparr>"

definition plain_store :: store where
  "plain_store = \<lparr> rows = [robot_row, chess_row, doll_row], seq = 4 \<rparr>"

section \<open>Properties\<close>

subsection \<open>Auxiliary facts\<close>

lemmas example_defs =
  two_files_request_def two_files_processed_def form_body_def file_a_def file_b_def
  robot_row_def robot_store_def empty_store_def no_payload_request_def
  name_only_request_def garbled_request_def array_request_def echo_request_def
  robot_request_def files_only_request_def bare_array_request_def

lemmas merge_defs =
  processItemData_def decode_payload_def JSON_parse_def new_images_def upload_path_def Let_def

lemmas route_defs =
  post_item_def put_item_def toggle_item_def delete_item_def
  sql_insert_def sql_update_def sql_set_owned_def sql_delete_def next_id_def
  owned_flag_def owned_truthy_flag_def stored_blob_def find_row_def spread_def success_def

lemmas store_defs = shelf_store_def plain_store_def car_row_def chess_row_def doll_row_def robot_row_def

lemmas listing_defs = get_items_def sql_select_def item_of_row_def item_view_def JSON_parse_def

lemmas metadata_defs = get_metadata_def scan_row_def observe_def set_add_def js_sort_def
  JSON_parse_def Let_def

lemma and_then_simps [simp]:
  "and_then (Inl e) f = Inl e"
  "and_then (Inr x) f = f x"
  by (simp_all add: and_then_def)

lemma first_or_null_cover: "first_or_null (Some (JArr ys)) = Inr (spec_cover ys)"
  by (cases ys) (simp_all add: spec_cover_def)

lemma map_of_update_same: "map_of (AList.update k v ps) k = Some v"
  by (simp add: update_conv')

lemma map_of_update_other: "k' \<noteq> k \<Longrightarrow> map_of (AList.update k v ps) k' = map_of ps k'"
  by (simp add: update_conv')

text \<open>What the merge returns, by the kind of value the payload decodes to.\<close>

lemma processItemData_object:
  assumes "decode_payload (data (body req)) = Val (JObj ps)"
  shows "processItemData req =
           Inr \<lparr> name = name (body req), category = category (body req),
                 collection = collection (body req), barcode = barcode (body req),
                 owned = owned (body req),
                 dataObj = Val (JObj (AList.update ''imageUrl''
                    (spec_cover (existing_images (map_of ps ''imageUrls'') @ new_images req))
                    (AList.update ''imageUrls''
                       (JArr (existing_images (map_of ps ''imageUrls'') @ new_images req)) ps))) \<rparr>"
  using assms
  by (simp add: processItemData_def Let_def map_of_update_same first_or_null_cover)

lemma processItemData_array:
  assumes "decode_payload (data (body req)) = Val (JArr xs)"
  shows "processItemData req =
           Inr \<lparr> name = name (body req), category = category (body req),
                 collection = collection (body req), barcode = barcode (body req),
                 owned = owned (body req),
                 dataObj = ArrProps xs [(''imageUrls'', JArr (new_images req)),
                                        (''imageUrl'', spec_cover (new_images req))] \<rparr>"
  using assms
  by (simp add: processItemData_def Let_def first_or_null_cover)

lemma processItemData_throws:
  assumes "decode_payload (data (body req)) = Undefined \<or>
           decode_payload (data (body req)) = Val JNull \<or>
           decode_payload (data (body req)) = Val (JBool b) \<or>
           decode_payload (data (body req)) = Val (JNum n) \<or>
           decode_payload (data (body req)) = Val (JStr s)"
  shows "processItemData req = Inl TypeError"
  using assms
  by (auto simp add: processItemData_def Let_def)

lemma decode_payload_never_ArrProps: "decode_payload d \<noteq> ArrProps xs ps"
  by (simp add: decode_payload_def JSON_parse_def split: payload.split jtext.split)

text \<open>The merge returns exactly when the payload decodes to an object or an array.\<close>

lemma processItemData_returns_iff:
  "(\<exists>p. processItemData req = Inr p) \<longleftrightarrow>
     (\<exists>ps. decode_payload (data (body req)) = Val (JObj ps))
     \<or> (\<exists>xs. decode_payload (data (body req)) = Val (JArr xs))"
proof (cases "decode_payload (data (body req))")
  case Undefined
  then show ?thesis by (simp add: processItemData_throws)
next
  case (ArrProps xs ps)
  then show ?thesis by (simp add: decode_payload_never_ArrProps)
next
  case (Val v)
  then show ?thesis
    using processItemData_throws [of req] processItemData_object [of req]
      processItemData_array [of req]
    by (cases v) auto
qed

lemma processItemData_fields:
  assumes "processItemData req = Inr p"
  shows "name p = name (body req) \<and> category p = category (body req)
       \<and> collection p = collection (body req) \<and> barcode p = barcode (body req)
       \<and> owned p = owned (body req)"
proof -
  from assms have "\<exists>p. processItemData req = Inr p" by blast
  then consider ps where "decode_payload (data (body req)) = Val (JObj ps)"
    | xs where "decode_payload (data (body req)) = Val (JArr xs)"
    by (auto simp: processItemData_returns_iff)
  then show ?thesis
  proof cases
    case 1
    from processItemData_object [OF 1] assms show ?thesis by auto
  next
    case 2
    from processItemData_array [OF 2] assms show ?thesis by auto
  qed
qed

text \<open>Line 244 reads back the array that line 243 assigned, or \<^verbatim>\<open>undefined\<close>.\<close>

lemma read_back:
  "set_prop d ''imageUrls'' (JArr zs) = Inr d1 \<Longrightarrow>
     get_prop d1 ''imageUrls'' = Inr (Some (JArr zs)) \<or> get_prop d1 ''imageUrls'' = Inr None"
  by (induction d "''imageUrls''" "JArr zs" rule: set_prop.induct) (auto simp: map_of_update_same)

lemma new_images_spec: "new_images req = spec_new_images req"
  by (simp add: new_images_def spec_new_images_def upload_path_def split: option.split)

lemma existing_images_spec:
  "existing_images (map_of ps ''imageUrls'') = spec_existing_images (Val (JObj ps))"
proof (cases "map_of ps ''imageUrls''")
  case None
  then show ?thesis by (simp add: spec_existing_images_def)
next
  case (Some v)
  then show ?thesis by (cases v) (simp_all add: spec_existing_images_def)
qed

text \<open>Looking a row up after an insertion and after an update.\<close>

lemma foldr_max_ge: "m \<le> foldr max xs (m::nat)"
  by (induction xs) (auto simp: max_def)

lemma foldr_max_mem: "x \<in> set xs \<Longrightarrow> x \<le> foldr max xs (m::nat)"
  by (induction xs) (auto simp: max_def)

lemma next_id_fresh: "r \<in> set (rows st) \<Longrightarrow> r_id r < next_id st"
  using foldr_max_mem [of "r_id r" "map r_id (rows st)" "seq st"]
  by (simp add: next_id_def less_Suc_eq_le)

lemma find_append_fresh:
  "\<forall>r \<in> set rs. \<not> P r \<Longrightarrow> P x \<Longrightarrow> find P (rs @ [x]) = Some x"
  by (induction rs) auto

lemma find_row_insert:
  "find_row (fst (sql_insert now st n cat col bar own dat)) (next_id st) =
     Some \<lparr> r_id = next_id st, r_name = n, r_category = Some cat, r_collection = col,
            r_barcode = bar, r_owned = Some own, r_data = dat, r_created_at = now \<rparr>"
proof -
  have "\<forall>r \<in> set (rows st). \<not> r_id r = next_id st"
    using next_id_fresh by fastforce
  then show ?thesis
    by (simp add: find_row_def sql_insert_def Let_def find_append_fresh)
qed

lemma find_map_update:
  assumes "\<And>r. r_id (f r) = r_id r"
  shows "find (\<lambda>r. r_id r = i) (map (\<lambda>r. if r_id r = i then f r else r) rs) =
         map_option f (find (\<lambda>r. r_id r = i) rs)"
  by (induction rs) (auto simp: assms)

lemma find_row_update:
  "find_row (sql_update st n cat col bar own dat i) i =
     map_option (\<lambda>r. r \<lparr> r_name := n, r_category := Some cat, r_collection := col,
                          r_barcode := bar, r_owned := Some own, r_data := dat \<rparr>)
       (find_row st i)"
  unfolding find_row_def sql_update_def
  by (simp add: find_map_update)

lemma stored_blob_post_object:
  assumes "decode_payload (data (body req)) = Val (JObj ps)"
  shows "stored_blob (fst (post_item now st req)) (next_id st) =
           Some (JObj (AList.update ''imageUrl''
                    (spec_cover (existing_images (map_of ps ''imageUrls'') @ new_images req))
                    (AList.update ''imageUrls''
                       (JArr (existing_images (map_of ps ''imageUrls'') @ new_images req)) ps)))"
  by (simp add: post_item_def processItemData_object [OF assms] stored_blob_def
        find_row_insert Let_def)

lemma stored_blob_put_object:
  assumes "decode_payload (data (body req)) = Val (JObj ps)"
    and "find_row st i = Some r"
  shows "stored_blob (fst (put_item st i req)) i =
           Some (JObj (AList.update ''imageUrl''
                    (spec_cover (existing_images (map_of ps ''imageUrls'') @ new_images req))
                    (AList.update ''imageUrls''
                       (JArr (existing_images (map_of ps ''imageUrls'') @ new_images req)) ps)))"
  using assms(2)
  by (simp add: put_item_def processItemData_object [OF assms(1)] stored_blob_def
        find_row_update)

lemma blob_consistent_merged:
  "blob_consistent (Some (JObj (AList.update ''imageUrl'' (spec_cover ys)
                                  (AList.update ''imageUrls'' (JArr ys) ps))))"
  by (simp add: blob_consistent_def map_of_update_same map_of_update_other)

text \<open>An id that no row has: the update and the deletion change nothing.\<close>

lemma find_None_all: "find P xs = None \<Longrightarrow> x \<in> set xs \<Longrightarrow> \<not> P x"
  by (simp add: find_None_iff)

lemma sql_update_absent:
  assumes "find_row st i = None"
  shows "sql_update st n cat col bar own dat i = st"
proof -
  have "map (\<lambda>r. if r_id r = i
                    then r \<lparr> r_name := n, r_category := Some cat, r_collection := col,
                             r_barcode := bar, r_owned := Some own, r_data := dat \<rparr>
                    else r) (rows st) = rows st"
    using assms by (intro map_idI) (auto simp: find_row_def dest: find_None_all)
  then show ?thesis by (simp add: sql_update_def)
qed

lemma sql_delete_absent:
  assumes "find_row st i = None"
  shows "sql_delete st i = st"
proof -
  have "filter (\<lambda>r. r_id r \<noteq> i) (rows st) = rows st"
    using assms by (intro filter_True) (auto simp: find_row_def dest: find_None_all)
  then show ?thesis by (simp add: sql_delete_def)
qed

text \<open>The rows of a reachable table hold what the merge made.\<close>

lemma processItemData_cases:
  obtains (throws) "processItemData req = Inl TypeError"
  | (object) ps where "decode_payload (data (body req)) = Val (JObj ps)"
  | (array) xs where "decode_payload (data (body req)) = Val (JArr xs)"
proof (cases "decode_payload (data (body req))")
  case Undefined
  then show ?thesis using throws processItemData_throws by blast
next
  case (ArrProps xs ps)
  then show ?thesis by (simp add: decode_payload_never_ArrProps)
next
  case (Val v)
  then show ?thesis
    using throws object array processItemData_throws [of req]
    by (cases v) auto
qed

lemma stringify_processed:
  assumes "processItemData req = Inr p"
  shows "(\<exists>ps. JSON_stringify (dataObj p) = Some (JsonText (JObj ps))
               \<and> blob_consistent (Some (JObj ps)))
       \<or> (\<exists>xs. JSON_stringify (dataObj p) = Some (JsonText (JArr xs)))"
proof (cases req rule: processItemData_cases)
  case throws
  with assms show ?thesis by simp
next
  case (object ps)
  from processItemData_object [OF object] assms
  show ?thesis by (auto simp: blob_consistent_merged)
next
  case (array xs)
  from processItemData_array [OF array] assms
  show ?thesis by auto
qed

lemma stored_ok_data:
  "(\<exists>ps. d = Some (JsonText (JObj ps)) \<and> blob_consistent (Some (JObj ps)))
     \<or> (\<exists>xs. d = Some (JsonText (JArr xs))) \<Longrightarrow> r_data r = d \<Longrightarrow> stored_ok r"
  by (auto simp: stored_ok_def)

lemma reachable_stored_ok:
  "reachable st \<Longrightarrow> r \<in> set (rows st) \<Longrightarrow> stored_ok r"
proof (induction arbitrary: r rule: reachable.induct)
  case reach_empty
  then show ?case by simp
next
  case (reach_post st now req)
  show ?case
  proof (cases "processItemData req")
    case (Inl e)
    with reach_post show ?thesis by (simp add: post_item_def)
  next
    case (Inr p)
    from reach_post.prems Inr
    have "r \<in> set (rows st) \<or> r_data r = JSON_stringify (dataObj p)"
      by (auto simp: post_item_def sql_insert_def Let_def)
    then show ?thesis
      using reach_post.IH stringify_processed [OF Inr] stored_ok_data by blast
  qed
next
  case (reach_put st i req)
  show ?case
  proof (cases "processItemData req")
    case (Inl e)
    with reach_put show ?thesis by (simp add: put_item_def)
  next
    case (Inr p)
    from reach_put.prems Inr
    have "r \<in> set (rows st) \<or> r_data r = JSON_stringify (dataObj p)"
      by (auto simp: put_item_def sql_update_def split: if_splits)
    then show ?thesis
      using reach_put.IH stringify_processed [OF Inr] stored_ok_data by blast
  qed
next
  case (reach_toggle st i w)
  from reach_toggle.prems
  obtain r0 where "r0 \<in> set (rows st)" "r_data r = r_data r0"
    by (auto simp: toggle_item_def sql_set_owned_def split: if_splits)
  with reach_toggle.IH [of r0] show ?case by (simp add: stored_ok_def)
next
  case (reach_delete st i)
  then show ?case by (simp add: delete_item_def sql_delete_def)
qed

lemma find_row_mem: "find_row st i = Some r \<Longrightarrow> r \<in> set (rows st)"
  by (auto simp: find_row_def find_Some_iff)

lemma robot_store_reachable: "reachable robot_store"
proof -
  have "fst (post_item 100 empty_store robot_request) = robot_store"
    by (simp add: robot_request_def example_defs merge_defs route_defs)
  moreover have "reachable (fst (post_item 100 empty_store robot_request))"
    using reach_empty reach_post unfolding empty_store_def by blast
  ultimately show ?thesis by simp
qed

text \<open>Every row of a reachable table decodes, to an object or an array.\<close>

lemma reachable_decodable: "reachable st \<Longrightarrow> decodable_rows st"
proof -
  assume r: "reachable st"
  have "decodable (r_data x)" if "x \<in> set (rows st)" for x
    using reachable_stored_ok [OF r that]
    by (cases "r_data x" rule: decodable.cases) (simp_all add: stored_ok_def)
  then show ?thesis
    by (simp add: decodable_rows_def list_all_iff)
qed

text \<open>With no parameter the listing is the one of the first version of the file.\<close>

lemma get_items_None: "get_items st None = get_items_unfiltered st"
  by (simp add: get_items_def get_items_unfiltered_def)

text \<open>The listing of rows that decode.\<close>

lemma map_items_decodable:
  "list_all (\<lambda>r. decodable (r_data r)) rs \<Longrightarrow> map_items rs = Inr (map item_view rs)"
proof (induction rs)
  case Nil
  then show ?case by simp
next
  case (Cons r rs)
  from Cons.prems have "decodable (r_data r)" by simp
  then have "item_of_row r = Inr (item_view r)"
    by (cases "r_data r" rule: decodable.cases)
       (simp_all add: item_of_row_def item_view_def JSON_parse_def)
  with Cons show ?case by simp
qed

lemma sql_select_subset: "set (sql_select st wh) \<subseteq> set (rows st)"
  by (auto simp: sql_select_def split: option.splits)

lemma mset_sql_select:
  "mset (sql_select st wh) =
     mset (case wh of None \<Rightarrow> rows st
                    | Some c \<Rightarrow> filter (\<lambda>r. r_category r = Some c) (rows st))"
  by (simp add: sql_select_def)

lemma sorted_sql_select:
  "sorted_wrt (\<lambda>a b. r_created_at b \<le> r_created_at a) (sql_select st wh)"
proof -
  have "sorted (map r_created_at (sort_key r_created_at xs))" for xs :: "row list"
    by simp
  then have "sorted_wrt (\<lambda>a b. r_created_at a \<le> r_created_at b) (sort_key r_created_at xs)"
    for xs :: "row list"
    by (simp add: sorted_map)
  then show ?thesis
    by (simp add: sql_select_def sorted_wrt_rev)
qed

text \<open>The scan of the metadata route over rows whose fields are strings.\<close>

lemma adds_Nil [simp]: "adds [] s = s"
  by (simp add: adds_def)

lemma adds_Cons [simp]: "adds (x # xs) s = adds xs (set_add (JStr x) s)"
  by (simp add: adds_def)

lemma adds_append: "adds (xs @ ys) s = adds ys (adds xs s)"
  by (simp add: adds_def)

lemma observe_plain:
  assumes "d \<noteq> JNull" and "string_or_falsy d k"
  shows "observe d k s = Inr (adds (string_field d k) s)"
proof (cases d)
  case (JObj ps)
  show ?thesis
  proof (cases "map_of ps k")
    case None
    with JObj show ?thesis by (simp add: observe_def)
  next
    case (Some x)
    with JObj assms(2) show ?thesis
      by (cases x) (simp_all add: observe_def string_or_falsy_def)
  qed
qed (use assms in \<open>simp_all add: observe_def\<close>)

lemma scan_row_plain:
  assumes "plain_row r"
  shows "scan_row r m =
    Inr \<lparr> collections = adds (filter (\<lambda>s. s \<noteq> []) [r_collection r]) (collections m),
          brands = adds (string_field (row_blob r) ''brand'') (brands m),
          themes = adds (string_field (row_blob r) ''theme'') (themes m),
          developers = adds (string_field (row_blob r) ''developer'') (developers m),
          publishers = adds (string_field (row_blob r) ''publisher'') (publishers m) \<rparr>"
proof -
  from assms obtain d where d: "JSON_parse (data_or_empty_object (r_data r)) = Inr d"
    and nn: "d \<noteq> JNull"
    and ok: "string_or_falsy d ''brand''" "string_or_falsy d ''theme''"
            "string_or_falsy d ''developer''" "string_or_falsy d ''publisher''"
    by (auto simp: plain_row_def split: sum.splits)
  have b: "row_blob r = d" by (simp add: row_blob_def d)
  show ?thesis
    by (simp add: scan_row_def Let_def d b observe_plain [OF nn] ok)
qed

lemma scan_rows_plain:
  "list_all plain_row rs \<Longrightarrow>
   scan_rows rs m =
    Inr \<lparr> collections = adds (filter (\<lambda>s. s \<noteq> []) (map r_collection rs)) (collections m),
          brands = adds (concat (map (\<lambda>r. string_field (row_blob r) ''brand'') rs)) (brands m),
          themes = adds (concat (map (\<lambda>r. string_field (row_blob r) ''theme'') rs)) (themes m),
          developers = adds (concat (map (\<lambda>r. string_field (row_blob r) ''developer'') rs)) (developers m),
          publishers = adds (concat (map (\<lambda>r. string_field (row_blob r) ''publisher'') rs)) (publishers m) \<rparr>"
proof (induction rs arbitrary: m)
  case Nil
  then show ?case by simp
next
  case (Cons r rs)
  from Cons.prems have r: "plain_row r" and rs: "list_all plain_row rs" by simp_all
  show ?case
    by (simp add: scan_row_plain [OF r] Cons.IH [OF rs] adds_append)
qed

lemma set_add_JStr:
  "set_add (JStr x) (map JStr ts) = map JStr (if x \<in> set ts then ts else ts @ [x])"
  by (auto simp: set_add_def)

lemma adds_strings:
  "distinct us \<Longrightarrow>
   \<exists>ts. adds ss (map JStr us) = map JStr ts \<and> set ts = set us \<union> set ss \<and> distinct ts"
proof (induction ss arbitrary: us)
  case Nil
  then show ?case by auto
next
  case (Cons x ss)
  let ?us = "if x \<in> set us then us else us @ [x]"
  from Cons.prems have "distinct ?us" by simp
  from Cons.IH [OF this] obtain ts where
    "adds ss (map JStr ?us) = map JStr ts" "set ts = set ?us \<union> set ss" "distinct ts"
    by blast
  then show ?case
    by (intro exI [of _ ts]) (auto simp: set_add_JStr)
qed

lemma insort_key_JStr:
  "insort_key js_toString (JStr a) (map JStr us) = map JStr (insort a us)"
  by (induction us) simp_all

lemma sort_key_JStr: "sort_key js_toString (map JStr ts) = map JStr (sort ts)"
  by (induction ts) (simp_all add: insort_key_JStr)

lemma js_sort_adds: "js_sort (adds ss []) = spec_sorted_set ss"
proof -
  from adds_strings [of "[]" ss] obtain ts where
    ts: "adds ss [] = map JStr ts" "set ts = set ss" "distinct ts"
    by auto
  have "sort ts = sort (remdups ss)"
    by (rule sorted_distinct_set_unique) (simp_all add: ts)
  then show ?thesis
    by (simp add: js_sort_def ts(1) sort_key_JStr spec_sorted_set_def)
qed

subsection \<open>The merge\<close>

text \<open>
  What a blob that the merge returns holds: the echoed sequence, then the upload paths.
\<close>

lemma merge_result_images:
  assumes "processItemData req = Inr p"
  shows "get_prop (dataObj p) ''imageUrls'' =
           Inr (Some (JArr (spec_existing_images (decode_payload (data (body req)))
                            @ spec_new_images req)))
       \<and> get_prop (dataObj p) ''imageUrl'' =
           Inr (Some (spec_cover (spec_existing_images (decode_payload (data (body req)))
                                  @ spec_new_images req)))"
proof (cases "decode_payload (data (body req))")
  case Undefined
  then have "processItemData req = Inl TypeError"
    by (simp add: processItemData_throws)
  with assms show ?thesis by simp
next
  case (ArrProps xs ps)
  then show ?thesis by (simp add: decode_payload_never_ArrProps)
next
  case (Val v)
  show ?thesis
  proof (cases v)
    case (JObj ps)
    with Val have d: "decode_payload (data (body req)) = Val (JObj ps)" by simp
    from processItemData_object [OF d] assms
    show ?thesis
      by (auto simp add: d map_of_update_same map_of_update_other
            existing_images_spec new_images_spec)
  next
    case (JArr xs)
    with Val have d: "decode_payload (data (body req)) = Val (JArr xs)" by simp
    from processItemData_array [OF d] assms
    show ?thesis
      by (auto simp add: d new_images_spec spec_existing_images_def)
  next
    case JNull
    with Val have "processItemData req = Inl TypeError"
      by (simp add: processItemData_throws)
    with assms show ?thesis by simp
  next
    case (JBool b)
    with Val have "processItemData req = Inl TypeError"
      using processItemData_throws [of req b] by simp
    with assms show ?thesis by simp
  next
    case (JNum n)
    with Val have "processItemData req = Inl TypeError"
      using processItemData_throws [of req _ n] by simp
    with assms show ?thesis by simp
  next
    case (JStr s)
    with Val have "processItemData req = Inl TypeError"
      using processItemData_throws [of req _ _ s] by simp
    with assms show ?thesis by simp
  qed
qed

text \<open>
  C2, as amended. For every creation or update whose payload decodes to a JSON object or
  a JSON array (a string that fails to decode counts as the empty object), the merge
  returns a blob; the blob's \<^verbatim>\<open>imageUrls\<close> is the sequence the client echoed (empty
  when the payload has no \<^verbatim>\<open>imageUrls\<close> or it is not a sequence) followed by the
  upload paths of the request's files in the order received, and its \<^verbatim>\<open>imageUrl\<close> is
  the first element of that concatenation, or null when it is empty, whatever
  \<^verbatim>\<open>imageUrl\<close> the client sent.
\<close>

theorem merge_returns_echoed_images_then_uploads:
  assumes "decode_payload (data (body req)) = Val (JObj ps)
           \<or> decode_payload (data (body req)) = Val (JArr xs)"
  shows "\<exists>p. processItemData req = Inr p
       \<and> get_prop (dataObj p) ''imageUrls'' =
           Inr (Some (JArr (spec_existing_images (decode_payload (data (body req)))
                            @ spec_new_images req)))
       \<and> get_prop (dataObj p) ''imageUrl'' =
           Inr (Some (spec_cover (spec_existing_images (decode_payload (data (body req)))
                                  @ spec_new_images req)))"
proof -
  from assms have "\<exists>p. processItemData req = Inr p"
    unfolding processItemData_returns_iff by blast
  then obtain p where p: "processItemData req = Inr p" ..
  from merge_result_images [OF p] p show ?thesis by blast
qed

theorem merge_returns_echoed_images_then_uploads_witness:
  "decode_payload (data (body two_files_request)) =
     Val (JObj [(''imageUrl'', JStr ''/uploads/chosen-by-client.png''),
                (''imageUrls'', JArr [JStr ''/uploads/old.png''])])
   \<and> processItemData two_files_request = Inr two_files_processed
   \<and> get_prop (dataObj two_files_processed) ''imageUrls'' =
       Inr (Some (JArr [JStr ''/uploads/old.png'',
                        JStr ''/uploads/1700000000000-1.png'',
                        JStr ''/uploads/1700000000000-2.png'']))
   \<and> get_prop (dataObj two_files_processed) ''imageUrl'' = Inr (Some (JStr ''/uploads/old.png''))"
proof -
  have d: "decode_payload (data (body two_files_request)) =
     Val (JObj [(''imageUrl'', JStr ''/uploads/chosen-by-client.png''),
                (''imageUrls'', JArr [JStr ''/uploads/old.png''])])"
    by (simp add: example_defs decode_payload_def JSON_parse_def)
  have h: "processItemData two_files_request = Inr two_files_processed"
    by (simp add: example_defs merge_defs)
  from d have "decode_payload (data (body two_files_request)) =
       Val (JObj [(''imageUrl'', JStr ''/uploads/chosen-by-client.png''),
                  (''imageUrls'', JArr [JStr ''/uploads/old.png''])])
     \<or> decode_payload (data (body two_files_request)) = Val (JArr [])"
    by simp
  from merge_returns_echoed_images_then_uploads [OF this] d h
  show ?thesis
    by (simp add: example_defs spec_existing_images_def spec_new_images_def spec_cover_def)
qed

text \<open>
  C2 as stated fails: a creation that attaches two files and has no \<^verbatim>\<open>data\<close> field
  echoes no images, yet the merge throws on line 241 and returns no blob; the creation
  is answered with the error and the table is left as it was.
\<close>

theorem merge_throws_on_files_without_payload:
  "data (body files_only_request) = Absent
   \<and> spec_new_images files_only_request =
       [JStr ''/uploads/1700000000000-1.png'', JStr ''/uploads/1700000000000-2.png'']
   \<and> processItemData files_only_request = Inl TypeError
   \<and> post_item 200 robot_store files_only_request = (robot_store, Inl (Thrown TypeError))"
  by (simp add: example_defs merge_defs spec_new_images_def post_item_def)

text \<open>
  C5. A creation or update whose payload is a string that does not decode as JSON goes
  on with the empty object: the merge returns the blob that holds just the derived
  \<^verbatim>\<open>imageUrls\<close> and \<^verbatim>\<open>imageUrl\<close>, the creation answers with the new id and stores
  that blob, and the update answers likewise; no error reaches the client.
\<close>

theorem undecodable_payload_falls_back_to_empty_object:
  assumes "data (body req) = Raw t"
    and "JSON_parse t = Inl e"
  shows "decode_payload (data (body req)) = Val (JObj [])
       \<and> processItemData req =
           Inr \<lparr> name = name (body req), category = category (body req),
                 collection = collection (body req), barcode = barcode (body req),
                 owned = owned (body req),
                 dataObj = Val (JObj [(''imageUrls'', JArr (spec_new_images req)),
                                      (''imageUrl'', spec_cover (spec_new_images req))]) \<rparr>
       \<and> snd (post_item now st req) =
           Inr (JObj [(''id'', JNum (int (next_id st))),
                      (''imageUrls'', JArr (spec_new_images req)),
                      (''imageUrl'', spec_cover (spec_new_images req))])
       \<and> stored_blob (fst (post_item now st req)) (next_id st) =
           Some (JObj [(''imageUrls'', JArr (spec_new_images req)),
                       (''imageUrl'', spec_cover (spec_new_images req))])
       \<and> snd (put_item st i req) =
           Inr (JObj [(''id'', JStr (string_of_nat i)),
                      (''imageUrls'', JArr (spec_new_images req)),
                      (''imageUrl'', spec_cover (spec_new_images req))])"
proof -
  from assms have d: "decode_payload (data (body req)) = Val (JObj [])"
    by (simp add: decode_payload_def)
  have p: "processItemData req =
           Inr \<lparr> name = name (body req), category = category (body req),
                 collection = collection (body req), barcode = barcode (body req),
                 owned = owned (body req),
                 dataObj = Val (JObj [(''imageUrls'', JArr (spec_new_images req)),
                                      (''imageUrl'', spec_cover (spec_new_images req))]) \<rparr>"
    using processItemData_object [OF d] by (simp add: new_images_spec)
  have s: "stored_blob (fst (post_item now st req)) (next_id st) =
           Some (JObj [(''imageUrls'', JArr (spec_new_images req)),
                       (''imageUrl'', spec_cover (spec_new_images req))])"
    using stored_blob_post_object [OF d, of now st] by (simp add: new_images_spec)
  have r1: "snd (post_item now st req) =
           Inr (JObj [(''id'', JNum (int (next_id st))),
                      (''imageUrls'', JArr (spec_new_images req)),
                      (''imageUrl'', spec_cover (spec_new_images req))])"
    by (simp add: post_item_def p spread_def sql_insert_def Let_def)
  have r2: "snd (put_item st i req) =
           Inr (JObj [(''id'', JStr (string_of_nat i)),
                      (''imageUrls'', JArr (spec_new_images req)),
                      (''imageUrl'', spec_cover (spec_new_images req))])"
    by (simp add: put_item_def p spread_def)
  from d p s r1 r2 show ?thesis by simp
qed

theorem undecodable_payload_falls_back_to_empty_object_witness:
  "data (body garbled_request) = Raw OtherText
   \<and> JSON_parse OtherText = Inl SyntaxError
   \<and> snd (post_item 200 robot_store garbled_request) =
       Inr (JObj [(''id'', JNum 2),
                  (''imageUrls'', JArr [JStr ''/uploads/1700000000000-1.png'']),
                  (''imageUrl'', JStr ''/uploads/1700000000000-1.png'')])
   \<and> stored_blob (fst (post_item 200 robot_store garbled_request)) 2 =
       Some (JObj [(''imageUrls'', JArr [JStr ''/uploads/1700000000000-1.png'']),
                   (''imageUrl'', JStr ''/uploads/1700000000000-1.png'')])"
proof -
  have a: "data (body garbled_request) = Raw OtherText"
    by (simp add: example_defs)
  have b: "JSON_parse OtherText = Inl SyntaxError"
    by (simp add: JSON_parse_def)
  have n: "next_id robot_store = 2"
    by (simp add: next_id_def example_defs)
  have f: "spec_new_images garbled_request = [JStr ''/uploads/1700000000000-1.png'']"
    by (simp add: spec_new_images_def example_defs)
  from undecodable_payload_falls_back_to_empty_object [OF a b, of 200 robot_store] a b
  show ?thesis by (simp add: n f spec_cover_def)
qed

text \<open>
  C6. When the payload is absent, is null, or is a string that decodes to null, the
  merge throws a \<^verbatim>\<open>TypeError\<close> on reading \<^verbatim>\<open>dataObj.imageUrls\<close>: the creation and the
  update fail and leave the table as it was. The payload is not replaced by the empty
  object, which only a string that fails to parse is.
\<close>

theorem missing_or_null_payload_throws:
  assumes "data (body req) = Absent \<or> data (body req) = Structured JNull
           \<or> data (body req) = Raw (JsonText JNull)"
  shows "processItemData req = Inl TypeError
       \<and> post_item now st req = (st, Inl (Thrown TypeError))
       \<and> put_item st i req = (st, Inl (Thrown TypeError))
       \<and> decode_payload (data (body req)) \<noteq> Val (JObj [])"
proof -
  from assms have d: "decode_payload (data (body req)) = Undefined
      \<or> decode_payload (data (body req)) = Val JNull"
    by (auto simp: decode_payload_def JSON_parse_def)
  then have p: "processItemData req = Inl TypeError"
    by (auto simp: processItemData_throws)
  from d have "decode_payload (data (body req)) \<noteq> Val (JObj [])" by auto
  with p show ?thesis by (simp add: post_item_def put_item_def)
qed

theorem missing_or_null_payload_throws_witness:
  "data (body no_payload_request) = Absent
   \<and> processItemData no_payload_request = Inl TypeError
   \<and> post_item 200 robot_store no_payload_request = (robot_store, Inl (Thrown TypeError))
   \<and> put_item robot_store 1 no_payload_request = (robot_store, Inl (Thrown TypeError))"
proof -
  have a: "data (body no_payload_request) = Absent"
    by (simp add: example_defs)
  then have b: "data (body no_payload_request) = Absent
      \<or> data (body no_payload_request) = Structured JNull
      \<or> data (body no_payload_request) = Raw (JsonText JNull)"
    by simp
  from missing_or_null_payload_throws [OF b, of 200 robot_store 1] a
  show ?thesis by simp
qed

subsection \<open>What a write stores\<close>




text \<open>
  C4, as amended. After a creation or an update of a stored item whose payload decodes
  to a JSON object (an undecodable string counts as the empty object), the stored blob
  has an \<^verbatim>\<open>imageUrls\<close> field that is an array, and its \<^verbatim>\<open>imageUrl\<close> is the first
  element of that array, or null when the array is empty.
\<close>

theorem write_of_object_payload_keeps_image_invariant:
  assumes "decode_payload (data (body req)) = Val (JObj ps)"
    and "find_row st' i = Some r"
  shows "blob_consistent (stored_blob (fst (post_item now st req)) (next_id st))
       \<and> blob_consistent (stored_blob (fst (put_item st' i req)) i)"
  by (simp add: stored_blob_post_object [OF assms(1)] stored_blob_put_object [OF assms]
        blob_consistent_merged)

theorem write_of_object_payload_keeps_image_invariant_witness:
  "decode_payload (data (body two_files_request)) =
     Val (JObj [(''imageUrl'', JStr ''/uploads/chosen-by-client.png''),
                (''imageUrls'', JArr [JStr ''/uploads/old.png''])])
   \<and> find_row robot_store 1 = Some robot_row
   \<and> blob_consistent (stored_blob (fst (post_item 200 robot_store two_files_request)) (next_id robot_store))
   \<and> blob_consistent (stored_blob (fst (put_item robot_store 1 two_files_request)) 1)"
proof -
  have a: "decode_payload (data (body two_files_request)) =
     Val (JObj [(''imageUrl'', JStr ''/uploads/chosen-by-client.png''),
                (''imageUrls'', JArr [JStr ''/uploads/old.png''])])"
    by (simp add: example_defs decode_payload_def JSON_parse_def)
  have d: "find_row robot_store 1 = Some robot_row"
    by (simp add: find_row_def example_defs)
  from write_of_object_payload_keeps_image_invariant [OF a d, of 200 robot_store] a d
  show ?thesis by simp
qed

text \<open>
  C4 as stated fails: a creation whose payload is the array \<^verbatim>\<open>[]\<close> is accepted and
  answered, and the blob it stores is \<^verbatim>\<open>[]\<close>, with no \<^verbatim>\<open>imageUrls\<close> field.
\<close>

theorem array_payload_is_stored_without_imageUrls:
  "post_item 200 empty_store array_request =
     (\<lparr> rows = [\<lparr> r_id = 1, r_name = ''Robot'', r_category = Some ''Game'',
                   r_collection = ''Shelf A'', r_barcode = None, r_owned = Some 1,
                   r_data = Some (JsonText (JArr [])), r_created_at = 200 \<rparr>],
         seq = 1 \<rparr>,
      Inr (JObj [(''id'', JNum 1),
                 (''imageUrls'', JArr [JStr ''/uploads/1700000000000-1.png'']),
                 (''imageUrl'', JStr ''/uploads/1700000000000-1.png'')]))
   \<and> stored_blob (fst (post_item 200 empty_store array_request)) 1 = Some (JArr [])
   \<and> blob_field (stored_blob (fst (post_item 200 empty_store array_request)) 1) ''imageUrls'' = None
   \<and> \<not> blob_consistent (stored_blob (fst (post_item 200 empty_store array_request)) 1)"
  by (simp add: example_defs merge_defs route_defs blob_consistent_def
        index_props_def spec_cover_def)

text \<open>
  C8. In every table the program reaches, an update that echoes the current
  \<^verbatim>\<open>imageUrls\<close> array of a stored item and attaches no file leaves the stored
  \<^verbatim>\<open>imageUrls\<close> and \<^verbatim>\<open>imageUrl\<close> of that item as they were.
\<close>

theorem update_echoing_images_keeps_them:
  assumes "reachable st"
    and "blob_field (stored_blob st i) ''imageUrls'' = Some (JArr xs)"
    and "decode_payload (data (body req)) = Val (JObj qs)"
    and "map_of qs ''imageUrls'' = Some (JArr xs)"
    and "files req = None \<or> files req = Some []"
  shows "blob_field (stored_blob (fst (put_item st i req)) i) ''imageUrls''
           = blob_field (stored_blob st i) ''imageUrls''
       \<and> blob_field (stored_blob (fst (put_item st i req)) i) ''imageUrl''
           = blob_field (stored_blob st i) ''imageUrl''"
proof -
  from assms(2) obtain r where r: "find_row st i = Some r"
    by (cases "find_row st i") (auto simp: stored_blob_def)
  from assms(2) r obtain ps where ps: "r_data r = Some (JsonText (JObj ps))"
    and cur: "map_of ps ''imageUrls'' = Some (JArr xs)"
    by (auto simp: stored_blob_def split: option.splits jtext.splits elim: blob_field.elims)
  from reachable_stored_ok [OF assms(1) find_row_mem [OF r]] ps cur
  have cover: "map_of ps ''imageUrl'' = Some (spec_cover xs)"
    by (simp add: stored_ok_def blob_consistent_def)
  from assms(5) have n: "new_images req = []"
    by (auto simp: new_images_def)
  have before: "stored_blob st i = Some (JObj ps)"
    by (simp add: stored_blob_def r ps)
  show ?thesis
    by (simp add: stored_blob_put_object [OF assms(3) r] before assms(4) n cur cover
          map_of_update_same map_of_update_other)
qed

theorem update_echoing_images_keeps_them_witness:
  "reachable robot_store
   \<and> blob_field (stored_blob robot_store 1) ''imageUrls''
       = Some (JArr [JStr ''/uploads/1700000000000-1.png''])
   \<and> blob_field (stored_blob robot_store 1) ''imageUrl''
       = Some (JStr ''/uploads/1700000000000-1.png'')
   \<and> decode_payload (data (body echo_request))
       = Val (JObj [(''imageUrls'', JArr [JStr ''/uploads/1700000000000-1.png''])])
   \<and> blob_field (stored_blob (fst (put_item robot_store 1 echo_request)) 1) ''imageUrls''
       = Some (JArr [JStr ''/uploads/1700000000000-1.png''])
   \<and> blob_field (stored_blob (fst (put_item robot_store 1 echo_request)) 1) ''imageUrl''
       = Some (JStr ''/uploads/1700000000000-1.png'')"
proof -
  have b: "blob_field (stored_blob robot_store 1) ''imageUrls''
       = Some (JArr [JStr ''/uploads/1700000000000-1.png''])"
    by (simp add: stored_blob_def find_row_def example_defs)
  have b': "blob_field (stored_blob robot_store 1) ''imageUrl''
       = Some (JStr ''/uploads/1700000000000-1.png'')"
    by (simp add: stored_blob_def find_row_def example_defs)
  have c: "decode_payload (data (body echo_request))
       = Val (JObj [(''imageUrls'', JArr [JStr ''/uploads/1700000000000-1.png''])])"
    by (simp add: example_defs decode_payload_def JSON_parse_def)
  have d: "map_of [(''imageUrls'', JArr [JStr ''/uploads/1700000000000-1.png''])] ''imageUrls''
       = Some (JArr [JStr ''/uploads/1700000000000-1.png''])"
    by simp
  have e: "files echo_request = None \<or> files echo_request = Some []"
    by (simp add: example_defs)
  from update_echoing_images_keeps_them [OF robot_store_reachable b c d e]
    robot_store_reachable b b' c
  show ?thesis by simp
qed

subsection \<open>Ids that no row has\<close>

text \<open>
  C7, as amended. For an id that no row has, a deletion answers
  \<^verbatim>\<open>{ success: true }\<close> and an update whose merge returns answers with the merged blob;
  an update whose merge throws is answered with that error. In every case the table is
  left exactly as it was: no row is changed and none is created.
\<close>

theorem absent_id_update_and_delete_leave_table:
  assumes "find_row st i = None"
  shows "delete_item st i = (st, Inr success)
       \<and> (case processItemData req of
            Inr p \<Rightarrow> put_item st i req =
                       (st, Inr (spread [(''id'', JStr (string_of_nat i))] (dataObj p)))
          | Inl e \<Rightarrow> put_item st i req = (st, Inl (Thrown e)))"
  by (simp add: delete_item_def put_item_def sql_update_absent [OF assms]
        sql_delete_absent [OF assms] split: sum.split)

theorem absent_id_update_and_delete_leave_table_witness:
  "find_row robot_store 42 = None
   \<and> delete_item robot_store 42 = (robot_store, Inr success)
   \<and> put_item robot_store 42 name_only_request =
       (robot_store, Inr (JObj [(''id'', JStr ''42''), (''brand'', JStr ''Acme''),
                                (''imageUrls'', JArr []), (''imageUrl'', JNull)]))"
proof -
  have a: "find_row robot_store 42 = None"
    by (simp add: find_row_def example_defs)
  have p: "processItemData name_only_request =
      Inr \<lparr> name = ''Robot'', category = Some ''Game'', collection = Some ''Shelf A'',
            barcode = None, owned = Some (JStr ''true''),
            dataObj = Val (JObj [(''brand'', JStr ''Acme''), (''imageUrls'', JArr []),
                                 (''imageUrl'', JNull)]) \<rparr>"
    by (simp add: example_defs merge_defs)
  have s: "string_of_nat 42 = ''42''"
    by (simp add: string_of_nat.simps digit_def)
  from absent_id_update_and_delete_leave_table [OF a, of name_only_request] a
  show ?thesis by (simp add: p spread_def s)
qed

text \<open>
  C7 as stated fails: an update of the absent id 42 that carries no \<^verbatim>\<open>data\<close> field
  does not answer successfully.
\<close>

theorem update_without_payload_fails_on_absent_id:
  "find_row robot_store 42 = None
   \<and> put_item robot_store 42 no_payload_request = (robot_store, Inl (Thrown TypeError))"
  by (simp add: find_row_def example_defs merge_defs route_defs)

subsection \<open>The owned flag\<close>

text \<open>
  C1. The creation and the update store 1 only for \<^verbatim>\<open>true\<close> and \<^verbatim>\<open>'true'\<close>
  (\<open>owned_flag\<close>); the toggle stores 1 for every truthy value. A toggle with the body
  \<^verbatim>\<open>{ owned: "false" }\<close> on the row of id 1, whose flag is 0, stores 1.
\<close>

theorem toggle_with_string_false_stores_owned:
  "owned_flag (Some (JStr ''false'')) = 0
   \<and> find_row robot_store 1 = Some robot_row
   \<and> r_owned robot_row = Some 0
   \<and> toggle_item robot_store 1 (Some (JStr ''false'')) =
       (\<lparr> rows = [robot_row \<lparr> r_owned := Some 1 \<rparr>], seq = 1 \<rparr>, Inr success)"
  by (simp add: find_row_def example_defs route_defs)

text \<open>
  The creation and the update do store 1 exactly for \<^verbatim>\<open>true\<close> and \<^verbatim>\<open>'true'\<close>, and 0
  for every other input.
\<close>

lemma owned_flag_iff:
  "owned_flag w = 1 \<longleftrightarrow> w = Some (JBool True) \<or> w = Some (JStr ''true'')"
  by (auto simp: owned_flag_def)

lemma owned_flag_otherwise:
  "w \<noteq> Some (JBool True) \<Longrightarrow> w \<noteq> Some (JStr ''true'') \<Longrightarrow> owned_flag w = 0"
  by (simp add: owned_flag_def)

lemma post_item_stores_owned_flag:
  assumes "processItemData req = Inr p"
  shows "map_option r_owned (find_row (fst (post_item now st req)) (next_id st))
           = Some (Some (owned_flag (owned (body req))))"
  using processItemData_fields [OF assms]
  by (simp add: post_item_def assms find_row_insert Let_def)

lemma put_item_stores_owned_flag:
  assumes "processItemData req = Inr p" and "find_row st i = Some r"
  shows "map_option r_owned (find_row (fst (put_item st i req)) i)
           = Some (Some (owned_flag (owned (body req))))"
  using processItemData_fields [OF assms(1)] assms(2)
  by (simp add: put_item_def assms(1) find_row_update)

text \<open>The toggle stores 1 exactly for the truthy values.\<close>

lemma toggle_item_stores_truthiness:
  assumes "find_row st i = Some r"
  shows "map_option r_owned (find_row (fst (toggle_item st i w)) i)
           = Some (Some (if js_truthy w then 1 else 0))"
proof -
  have "find_row (sql_set_owned st (owned_truthy_flag w) i) i
          = map_option (\<lambda>r. r \<lparr> r_owned := Some (owned_truthy_flag w) \<rparr>) (find_row st i)"
    unfolding find_row_def sql_set_owned_def by (simp add: find_map_update)
  with assms show ?thesis
    by (simp add: toggle_item_def owned_truthy_flag_def)
qed

subsection \<open>Listing\<close>

text \<open>
  C9, as amended. Over a table whose \<^verbatim>\<open>data\<close> columns decode, the listing with a
  category parameter that is not empty returns exactly the items of the rows of that
  category; with no parameter, or with an empty one, it returns the items of all rows;
  the result is ordered by descending creation time.
\<close>

theorem listing_filters_and_orders:
  assumes "decodable_rows st"
  shows "\<exists>is. get_items st q = Inr is
          \<and> sorted_wrt (\<lambda>a b. i_created_at b \<le> i_created_at a) is
          \<and> (q = None \<or> q = Some [] \<longrightarrow> mset is = mset (map item_view (rows st)))
          \<and> (\<forall>c. q = Some c \<and> c \<noteq> [] \<longrightarrow>
                 mset is = mset (map item_view (filter (\<lambda>r. r_category r = Some c) (rows st))))"
proof -
  let ?rs = "sql_select st (or_null q)"
  from assms sql_select_subset [of st "or_null q"]
  have "list_all (\<lambda>r. decodable (r_data r)) ?rs"
    by (auto simp: decodable_rows_def list_all_iff)
  then have m: "map_items ?rs = Inr (map item_view ?rs)"
    by (rule map_items_decodable)
  then have g: "get_items st q = Inr (map item_view ?rs)"
    by (simp add: get_items_def)
  have s: "sorted_wrt (\<lambda>a b. i_created_at b \<le> i_created_at a) (map item_view ?rs)"
    using sorted_sql_select [of st "or_null q"]
    by (simp add: sorted_wrt_map item_view_def)
  have a: "q = None \<or> q = Some [] \<Longrightarrow> mset (map item_view ?rs) = mset (map item_view (rows st))"
    using mset_sql_select [of st None] by auto
  have b: "q = Some c \<Longrightarrow> c \<noteq> [] \<Longrightarrow>
      mset (map item_view ?rs) = mset (map item_view (filter (\<lambda>r. r_category r = Some c) (rows st)))" for c
    using mset_sql_select [of st "Some c"] by simp
  from g s a b show ?thesis by auto
qed

theorem listing_filters_and_orders_witness:
  "decodable_rows shelf_store
   \<and> get_items shelf_store (Some ''Game'') = Inr [item_view chess_row, item_view robot_row]
   \<and> get_items shelf_store None = Inr [item_view car_row, item_view chess_row, item_view robot_row]"
proof -
  have h: "decodable_rows shelf_store"
    by (simp add: decodable_rows_def store_defs)
  from listing_filters_and_orders [OF h, of "Some ''Game''"] h
  show ?thesis
    by (simp add: store_defs listing_defs)
qed

text \<open>
  C9 as stated fails: with the parameter \<^verbatim>\<open>category=\<close> (the empty string) the listing
  returns all three rows of the table, none of which is of the category \<^verbatim>\<open>''\<close>; the
  query with the \<^verbatim>\<open>WHERE\<close> clause would return none.
\<close>

theorem empty_category_parameter_lists_everything:
  "get_items shelf_store (Some '''') = Inr [item_view car_row, item_view chess_row, item_view robot_row]
   \<and> map_items (sql_select shelf_store (Some '''')) = Inr []"
  by (simp add: store_defs listing_defs)

subsection \<open>Metadata\<close>

text \<open>
  C10, as amended. Over a table whose blobs decode to a value other than null and hold,
  in \<^verbatim>\<open>brand\<close>, \<^verbatim>\<open>theme\<close>, \<^verbatim>\<open>developer\<close> and \<^verbatim>\<open>publisher\<close>, only strings and falsy
  values, the metadata route returns for each of the five fields the sorted,
  duplicate-free list of the non-empty strings observed, \<^verbatim>\<open>collection\<close> from the
  column and the other four from the blob.
\<close>

theorem metadata_of_string_fields:
  assumes "plain_rows st"
  shows "get_metadata st = Inr (spec_metadata st)"
proof -
  from assms have "list_all plain_row (rows st)"
    by (simp add: plain_rows_def)
  from scan_rows_plain [OF this]
  show ?thesis
    by (simp add: get_metadata_def spec_metadata_def js_sort_adds
          observed_collections_def observed_strings_def)
qed

theorem metadata_of_string_fields_witness:
  "plain_rows plain_store
   \<and> get_metadata plain_store =
       Inr \<lparr> m_collection = [JStr ''Shelf A'', JStr ''Shelf B''],
             m_brand = [JStr ''Acme'', JStr ''Zed'', JStr ''acme''],
             m_theme = [JStr ''Classic''], m_developer = [], m_publisher = [] \<rparr>"
proof -
  have h: "plain_rows plain_store"
    by (simp add: plain_rows_def plain_row_def string_or_falsy_def store_defs JSON_parse_def)
  from metadata_of_string_fields [OF h] h
  show ?thesis
    by (simp add: spec_metadata_def spec_sorted_set_def observed_collections_def
          observed_strings_def row_blob_def JSON_parse_def store_defs)
qed

text \<open>
  C10 as stated fails: the brand of the car is the number 5, which is truthy, and the
  route lists it among the brands; it is not a string value.
\<close>

theorem metadata_lists_a_number:
  "get_metadata shelf_store =
     Inr \<lparr> m_collection = [JStr ''Shelf A'', JStr ''Shelf B''],
           m_brand = [JNum 5, JStr ''Acme'', JStr ''acme''],
           m_theme = [JStr ''Classic''], m_developer = [], m_publisher = [] \<rparr>
   \<and> spec_metadata shelf_store =
       \<lparr> m_collection = [JStr ''Shelf A'', JStr ''Shelf B''],
         m_brand = [JStr ''Acme'', JStr ''acme''],
         m_theme = [JStr ''Classic''], m_developer = [], m_publisher = [] \<rparr>
   \<and> get_metadata shelf_store \<noteq> Inr (spec_metadata shelf_store)"
  by (simp add: metadata_defs spec_metadata_def spec_sorted_set_def observed_collections_def
        observed_strings_def row_blob_def store_defs string_of_nat.simps digit_def)

end
